theory Spec2Isabelle
  imports Complex_Main "HOL-Library.Multiset"
begin

section \<open>JavaScript values\<close>

text \<open>
  A JavaScript \<^verbatim>\<open>number\<close> is either \<^verbatim>\<open>NaN\<close> or a numeric value. Numeric values are
  idealised as reals: rounding, overflow, signed zeros and the two infinities are not
  represented. Arithmetic propagates \<^verbatim>\<open>NaN\<close>; every comparison with \<^verbatim>\<open>NaN\<close> is false.
  A division by zero (an infinity or \<^verbatim>\<open>NaN\<close> in JavaScript) is mapped to \<^verbatim>\<open>NaN\<close>; no
  division of the code embedded below has a zero divisor (the divisors are the
  constants 7, 4 and 3, \<^verbatim>\<open>period + 1\<close> for a sample count, and the length of a
  non-empty array).
  A value of TypeScript type \<^verbatim>\<open>number | null\<close> is a \<open>number option\<close>, \<open>None\<close> being
  \<^verbatim>\<open>null\<close>.
\<close>

datatype number = NaN | Num real

instantiation number :: "{plus, minus, times, inverse, ord}"
begin

definition plus_number :: "number \<Rightarrow> number \<Rightarrow> number" where
  "plus_number a b = (case (a, b) of (Num x, Num y) \<Rightarrow> Num (x + y) | _ \<Rightarrow> NaN)"

definition minus_number :: "number \<Rightarrow> number \<Rightarrow> number" where
  "minus_number a b = (case (a, b) of (Num x, Num y) \<Rightarrow> Num (x - y) | _ \<Rightarrow> NaN)"

definition times_number :: "number \<Rightarrow> number \<Rightarrow> number" where
  "times_number a b = (case (a, b) of (Num x, Num y) \<Rightarrow> Num (x * y) | _ \<Rightarrow> NaN)"

definition divide_number :: "number \<Rightarrow> number \<Rightarrow> number" where
  "divide_number a b =
     (case (a, b) of (Num x, Num y) \<Rightarrow> (if y = 0 then NaN else Num (x / y)) | _ \<Rightarrow> NaN)"

definition inverse_number :: "number \<Rightarrow> number" where
  "inverse_number a = divide (Num 1) a"

definition less_number :: "number \<Rightarrow> number \<Rightarrow> bool" where
  "less_number a b = (case (a, b) of (Num x, Num y) \<Rightarrow> x < y | _ \<Rightarrow> False)"

definition less_eq_number :: "number \<Rightarrow> number \<Rightarrow> bool" where
  "less_eq_number a b = (case (a, b) of (Num x, Num y) \<Rightarrow> x \<le> y | _ \<Rightarrow> False)"

instance ..

end

text \<open>\<^verbatim>\<open>Number.isNaN\<close> on a value of type \<^verbatim>\<open>number | null\<close>: false for \<^verbatim>\<open>null\<close>.\<close>

definition isNaN :: "number option \<Rightarrow> bool" where
  "isNaN v = (v = Some NaN)"

section \<open>The card page (component Page of src/app/page.tsx)\<close>

text \<open>
  The signal helpers of src/app/page.tsx, lines 74 to 160. The copy of the same page in
  src/unnamed/part\_000 (lines 80 to 155) has the same helpers with the same branches;
  it differs in the default of \<^verbatim>\<open>getAccelerationLabel\<close> and in the text and colours of
  the red traffic light.
\<close>

definition getSentiment :: "number option \<Rightarrow> string" where
  "getSentiment change24h =
     (case change24h of
        None \<Rightarrow> ''Neutral''
      | Some c \<Rightarrow>
          if c = NaN then ''Neutral''
          else if c > Num 3 then ''Strong Bullish''
          else if c > Num 0.5 then ''Bullish''
          else if c < Num (- 3) then ''Strong Bearish''
          else if c < Num (- 0.5) then ''Bearish''
          else ''Neutral'')"

definition getTrendLabel :: "number option \<Rightarrow> string" where
  "getTrendLabel change7d =
     (case change7d of
        None \<Rightarrow> ''Unknown''
      | Some c \<Rightarrow>
          if c = NaN then ''Unknown''
          else if c > Num 15 then ''Strong Uptrend''
          else if c > Num 5 then ''Uptrend''
          else if c < Num (- 15) then ''Strong Downtrend''
          else if c < Num (- 5) then ''Downtrend''
          else ''Sideways'')"

definition getTrendPhase :: "number option \<Rightarrow> string" where
  "getTrendPhase change7d =
     (case change7d of
        None \<Rightarrow> ''Unknown''
      | Some c \<Rightarrow>
          if c = NaN then ''Unknown''
          else if c > Num 20 then ''Parabolic Uptrend''
          else if c > Num 10 then ''Expansion Phase''
          else if c > Num 3 then ''Early Uptrend''
          else if c < Num (- 20) then ''Capitulation''
          else if c < Num (- 10) then ''Sharp Downtrend''
          else if c < Num (- 3) then ''Grinding Downtrend''
          else ''Range / Compression'')"

definition getAccelerationLabel :: "number option \<Rightarrow> number option \<Rightarrow> string" where
  "getAccelerationLabel change24h change7d =
     (case (change24h, change7d) of
        (Some c24, Some c7) \<Rightarrow>
          if c24 = NaN \<or> c7 = NaN then ''No clear acceleration''
          else
            let dailyAvg = c7 / Num 7 in
            if c24 > dailyAvg + Num 3 then ''Short-term acceleration''
            else if c24 < dailyAvg - Num 3 then ''Short-term deceleration''
            else ''Stable vs recent trend''
      | _ \<Rightarrow> ''No clear acceleration'')"

definition getTrendScore :: "number option \<Rightarrow> number" where
  "getTrendScore change7d =
     (case change7d of
        None \<Rightarrow> Num 0
      | Some c \<Rightarrow> if c = NaN then Num 0 else c / Num 4)"

definition getMomentumScore :: "number option \<Rightarrow> number" where
  "getMomentumScore change24h =
     (case change24h of
        None \<Rightarrow> Num 0
      | Some c \<Rightarrow> if c = NaN then Num 0 else c / Num 3)"

text \<open>
  The labels of the traffic light contain an en dash (U+2013), written here as the three
  bytes of its UTF-8 encoding.
\<close>

definition en_dash :: string where
  "en_dash = [CHR 0xE2, CHR 0x80, CHR 0x93]"

record TrafficLight =
  label :: string
  color :: string
  bg :: string
  border :: string

definition green_light :: TrafficLight where
  "green_light =
     \<lparr>label = ''Green '' @ en_dash @ '' Favorable rotation'', color = ''#22c55e'',
      bg = ''rgba(34,197,94,0.18)'', border = ''rgba(34,197,94,0.6)''\<rparr>"

definition red_light :: TrafficLight where
  "red_light =
     \<lparr>label = ''Red '' @ en_dash @ '' High risk / fading'', color = ''#ef4444'',
      bg = ''rgba(239,68,68,0.16)'', border = ''rgba(239,68,68,0.6)''\<rparr>"

definition yellow_light :: TrafficLight where
  "yellow_light =
     \<lparr>label = ''Yellow '' @ en_dash @ '' Neutral / wait'', color = ''#facc15'',
      bg = ''rgba(250,204,21,0.14)'', border = ''rgba(250,204,21,0.55)''\<rparr>"

definition getTrafficLight :: "number \<Rightarrow> TrafficLight" where
  "getTrafficLight rotationScore =
     (if rotationScore \<ge> Num 6 then green_light
      else if rotationScore \<le> Num (- 2) then red_light
      else yellow_light)"

text \<open>The traffic light of src/unnamed/part\_000, lines 132 to 155.\<close>

definition red_light_part000 :: TrafficLight where
  "red_light_part000 =
     \<lparr>label = ''Red '' @ en_dash @ '' High risk'', color = ''#ef4444'',
      bg = ''rgba(239,68,68,0.18)'', border = ''rgba(239,68,68,0.6)''\<rparr>"

definition yellow_light_part000 :: TrafficLight where
  "yellow_light_part000 =
     \<lparr>label = ''Yellow '' @ en_dash @ '' Neutral / wait'', color = ''#facc15'',
      bg = ''rgba(250,204,21,0.2)'', border = ''rgba(250,204,21,0.6)''\<rparr>"

definition getTrafficLight_part000 :: "number \<Rightarrow> TrafficLight" where
  "getTrafficLight_part000 score =
     (if score \<ge> Num 6 then green_light
      else if score \<le> Num (- 2) then red_light_part000
      else yellow_light_part000)"

text \<open>
  One card of the page (src/app/page.tsx, lines 404 to 443). The entry of the coin may be
  missing from the market map; a missing entry reads as \<^verbatim>\<open>null\<close>
  (\<^verbatim>\<open>entry?.price ?? null\<close>). A coin without a price gets a placeholder card and no
  signals: that is the result \<open>None\<close>.
\<close>

record MarketEntry =
  entry_price :: "number option"
  entry_change24h :: "number option"
  entry_change7d :: "number option"

record CardSignals =
  card_sentiment :: string
  card_trendLabel :: string
  card_trendScore :: number
  card_momentumScore :: number
  card_rotationScore :: number
  card_trendPhase :: string
  card_accelerationLabel :: string
  card_traffic :: TrafficLight

definition coinCard :: "MarketEntry option \<Rightarrow> CardSignals option" where
  "coinCard entry =
     (let price = (case entry of None \<Rightarrow> None | Some e \<Rightarrow> entry_price e);
          change24h = (case entry of None \<Rightarrow> None | Some e \<Rightarrow> entry_change24h e);
          change7d = (case entry of None \<Rightarrow> None | Some e \<Rightarrow> entry_change7d e)
      in if price = None \<or> isNaN price then None
         else
           let trendScore = getTrendScore change7d;
               momentumScore = getMomentumScore change24h;
               rotationScore = trendScore * Num 2 + momentumScore
           in Some \<lparr>card_sentiment = getSentiment change24h,
                    card_trendLabel = getTrendLabel change7d,
                    card_trendScore = trendScore,
                    card_momentumScore = momentumScore,
                    card_rotationScore = rotationScore,
                    card_trendPhase = getTrendPhase change7d,
                    card_accelerationLabel = getAccelerationLabel change24h change7d,
                    card_traffic = getTrafficLight rotationScore\<rparr>)"

section \<open>The market map of src/unnamed/part\_000\<close>

text \<open>
  The provider's answer is parsed JSON, so a field of a record can hold any JSON value or
  be absent. \<open>JUndefined\<close> is an absent property; arrays and objects in a numeric
  field are not modelled. The conversion of a string to a number is the engine's
  \<^verbatim>\<open>StringToNumber\<close>; it is a parameter of the functions that convert.
\<close>

datatype jsval = JUndefined | JNull | JBool bool | JNumber number | JString string

text \<open>The operator \<^verbatim>\<open>a ?? b\<close>.\<close>

definition coalesce :: "jsval \<Rightarrow> jsval \<Rightarrow> jsval" where
  "coalesce a b = (if a = JUndefined \<or> a = JNull then b else a)"

text \<open>\<^verbatim>\<open>Number(v)\<close>, and the conversion of an operand of \<^verbatim>\<open>>\<close> and \<^verbatim>\<open><\<close>.\<close>

definition toNumber :: "(string \<Rightarrow> number) \<Rightarrow> jsval \<Rightarrow> number" where
  "toNumber StringToNumber v =
     (case v of
        JUndefined \<Rightarrow> NaN
      | JNull \<Rightarrow> Num 0
      | JBool b \<Rightarrow> Num (if b then 1 else 0)
      | JNumber n \<Rightarrow> n
      | JString s \<Rightarrow> StringToNumber s)"

record CoinDef =
  def_id :: string
  def_symbol :: string
  def_name :: string

definition COINS_part000 :: "CoinDef list" where
  "COINS_part000 =
     [\<lparr>def_id = ''bitcoin'', def_symbol = ''BTC'', def_name = ''Bitcoin''\<rparr>,
      \<lparr>def_id = ''ethereum'', def_symbol = ''ETH'', def_name = ''Ethereum''\<rparr>,
      \<lparr>def_id = ''solana'', def_symbol = ''SOL'', def_name = ''Solana''\<rparr>,
      \<lparr>def_id = ''chainlink'', def_symbol = ''LINK'', def_name = ''Chainlink''\<rparr>,
      \<lparr>def_id = ''avalanche-2'', def_symbol = ''AVAX'', def_name = ''Avalanche''\<rparr>]"

text \<open>
  One element of the provider's array. \<open>raw_id\<close> is \<^verbatim>\<open>coin?.id\<close>, and
  \<open>sparkline_price\<close> is \<^verbatim>\<open>coin?.sparkline_in_7d?.price\<close> when that is an array.
\<close>

record RawCoin =
  raw_id :: "string option"
  current_price :: jsval
  price_change_percentage_24h_in_currency :: jsval
  price_change_percentage_24h :: jsval
  price_change_percentage_7d_in_currency :: jsval
  price_change_percentage_7d :: jsval
  sparkline_price :: "jsval list option"

record MarketEntry7 = MarketEntry +
  entry_history7d :: "number list"

text \<open>The body of the loop of \<^verbatim>\<open>load\<close> (src/unnamed/part\_000, lines 330 to 352).\<close>

definition marketEntryOf :: "(string \<Rightarrow> number) \<Rightarrow> RawCoin \<Rightarrow> MarketEntry7" where
  "marketEntryOf StringToNumber coin =
     (let price = toNumber StringToNumber (coalesce (current_price coin) (JNumber NaN));
          c24 = toNumber StringToNumber
                  (coalesce (price_change_percentage_24h_in_currency coin)
                     (price_change_percentage_24h coin));
          c7 = toNumber StringToNumber
                 (coalesce (price_change_percentage_7d_in_currency coin)
                    (price_change_percentage_7d coin));
          prices7d = (case sparkline_price coin of
                        Some arr \<Rightarrow> filter (\<lambda>v. v \<noteq> NaN) (map (toNumber StringToNumber) arr)
                      | None \<Rightarrow> [])
      in \<lparr>entry_price = (if price = NaN then None else Some price),
          entry_change24h = (if c24 = NaN then None else Some c24),
          entry_change7d = (if c7 = NaN then None else Some c7),
          entry_history7d = prices7d\<rparr>)"

definition load :: "(string \<Rightarrow> number) \<Rightarrow> RawCoin list \<Rightarrow> (string \<rightharpoonup> MarketEntry7)" where
  "load StringToNumber raw =
     foldl (\<lambda>map coin.
              case raw_id coin of
                None \<Rightarrow> map
              | Some i \<Rightarrow>
                  if i = [] \<or> \<not> list_ex (\<lambda>c. def_id c = i) COINS_part000 then map
                  else map(i \<mapsto> marketEntryOf StringToNumber coin))
       Map.empty raw"

section \<open>The sector page (component Home of src/app/page.tsx)\<close>

datatype Sector = Macro | L1 | Oracle

record Coin =
  coin_id :: string
  coin_symbol :: string
  coin_name :: string
  coin_sector :: Sector

record MarketData =
  md_price :: "number option"
  md_change24h :: "number option"

record TrendInfo =
  ema20 :: number
  ema50 :: number
  trend_change7d :: "number option"
  trend_spark :: "number list"

definition COINS :: "Coin list" where
  "COINS =
     [\<lparr>coin_id = ''bitcoin'', coin_symbol = ''BTC'', coin_name = ''Bitcoin'', coin_sector = Macro\<rparr>,
      \<lparr>coin_id = ''ethereum'', coin_symbol = ''ETH'', coin_name = ''Ethereum'', coin_sector = L1\<rparr>,
      \<lparr>coin_id = ''solana'', coin_symbol = ''SOL'', coin_name = ''Solana'', coin_sector = L1\<rparr>,
      \<lparr>coin_id = ''chainlink'', coin_symbol = ''LINK'', coin_name = ''Chainlink'',
       coin_sector = Oracle\<rparr>,
      \<lparr>coin_id = ''avalanche-2'', coin_symbol = ''AVAX'', coin_name = ''Avalanche'',
       coin_sector = L1\<rparr>]"

subsection \<open>The exponential moving average\<close>

text \<open>
  Reading an array past its end gives \<^verbatim>\<open>undefined\<close>. In arithmetic \<^verbatim>\<open>undefined\<close>
  converts to \<^verbatim>\<open>NaN\<close>.
\<close>

datatype 'a or_undefined = Undefined | Defined 'a

definition js_index :: "'a list \<Rightarrow> nat \<Rightarrow> 'a or_undefined" where
  "js_index xs i = (if i < length xs then Defined (xs ! i) else Undefined)"

definition operand :: "number or_undefined \<Rightarrow> number" where
  "operand v = (case v of Undefined \<Rightarrow> NaN | Defined n \<Rightarrow> n)"

text \<open>
  \<^verbatim>\<open>calculateEMA\<close> (src/app/page.tsx, lines 686 to 697). The period is a number of
  samples (the callers pass 20 and 50) and is a natural number here, so that
  \<^verbatim>\<open>period + 1\<close> is not zero. \<open>ema_loop\<close> is the \<^verbatim>\<open>for\<close> loop, from the index \<open>i\<close> on.
\<close>

function ema_loop :: "number \<Rightarrow> number list \<Rightarrow> nat \<Rightarrow> number or_undefined \<Rightarrow> number or_undefined"
  where
    "ema_loop k prices i ema =
       (if i < length prices
        then ema_loop k prices (i + 1) (Defined (prices ! i * k + operand ema * (Num 1 - k)))
        else ema)"
  by pat_completeness auto
termination
  by (relation "measure (\<lambda>(k, prices, i, ema). length prices - i)") auto

declare ema_loop.simps [simp del]

definition calculateEMA :: "number list \<Rightarrow> nat \<Rightarrow> number or_undefined" where
  "calculateEMA prices period =
     (if length prices < period then Defined NaN
      else
        let k = Num 2 / (Num (real period) + Num 1);
            ema = js_index prices 0
        in ema_loop k prices 1 ema)"

subsection \<open>Scores\<close>

text \<open>
  \<^verbatim>\<open>getTrendScore\<close> and \<^verbatim>\<open>getMomentumScore\<close> of the sector page (src/app/page.tsx, lines
  751 to 784). Every \<^verbatim>\<open>return\<close> of the two gives an integer literal, so the scores are
  plain reals. \<^verbatim>\<open>!price\<close> holds for \<^verbatim>\<open>null\<close>, \<^verbatim>\<open>NaN\<close> and 0; \<^verbatim>\<open>change == null\<close> holds
  for \<^verbatim>\<open>null\<close>.
\<close>

definition falsy :: "number option \<Rightarrow> bool" where
  "falsy v = (v = None \<or> v = Some NaN \<or> v = Some (Num 0))"

definition getTrendScore_Home :: "number option \<Rightarrow> TrendInfo option \<Rightarrow> real" where
  "getTrendScore_Home price trend =
     (case (price, trend) of
        (Some p, Some t) \<Rightarrow>
          if falsy price \<or> ema20 t = NaN \<or> ema50 t = NaN then 0
          else if p > ema20 t \<and> ema20 t > ema50 t then 2
          else if ema20 t > ema50 t then 1
          else if p < ema20 t \<and> ema20 t < ema50 t then - 2
          else - 1
      | _ \<Rightarrow> 0)"

definition getMomentumScore_Home :: "number option \<Rightarrow> real" where
  "getMomentumScore_Home change =
     (case change of
        None \<Rightarrow> 0
      | Some c \<Rightarrow>
          if c = NaN then 0
          else if c > Num 7 then 3
          else if c > Num 3 then 2
          else if c > Num 0 then 1
          else if c < Num (- 7) then - 3
          else if c < Num (- 3) then - 2
          else if c < Num 0 then - 1
          else 0)"

definition getTrendLabel_Home :: "number option \<Rightarrow> TrendInfo option \<Rightarrow> string" where
  "getTrendLabel_Home price trend =
     (let s = getTrendScore_Home price trend
      in if s = 2 then ''Trend: Strong Bullish (stacked EMAs)''
         else if s = 1 then ''Trend: Bullish (EMA20 above EMA50)''
         else if s = - 2 then ''Trend: Strong Bearish (stacked EMAs)''
         else if s = - 1 then ''Trend: Bearish (EMA20 below EMA50)''
         else ''Trend: Unknown'')"

subsection \<open>The leaderboard\<close>

record RotationItem =
  item_coin :: Coin
  item_score :: real

datatype SectorFilter = All | Only Sector

text \<open>
  \<^verbatim>\<open>Array.prototype.sort\<close> is stable (ECMAScript 2019), and a comparator
  \<^verbatim>\<open>(a, b) => key(b) - key(a)\<close> on finite keys orders by descending key. The model is the
  stable insertion sort of the list library on the negated key.
\<close>

definition sort_desc :: "('a \<Rightarrow> real) \<Rightarrow> 'a list \<Rightarrow> 'a list" where
  "sort_desc key xs = sort_key (\<lambda>x. - key x) xs"

text \<open>The filter of src/app/page.tsx, lines 950 to 952, on a list of coins.\<close>

definition visibleCoins :: "Coin list \<Rightarrow> SectorFilter \<Rightarrow> Coin list" where
  "visibleCoins coins sectorFilter =
     filter (\<lambda>coin. if sectorFilter = All then True else Only (coin_sector coin) = sectorFilter)
       coins"

text \<open>
  The item of one coin (lines 958 to 969, and again lines 977 to 987):
  \<^verbatim>\<open>md?.price ?? null\<close> reads a missing entry as \<^verbatim>\<open>null\<close>.
\<close>

definition rotationItem ::
  "(string \<rightharpoonup> MarketData) \<Rightarrow> (string \<rightharpoonup> TrendInfo) \<Rightarrow> Coin \<Rightarrow> RotationItem" where
  "rotationItem marketData trendData coin =
     (let md = marketData (coin_id coin);
          trend = trendData (coin_id coin);
          price = (case md of None \<Rightarrow> None | Some m \<Rightarrow> md_price m);
          change = (case md of None \<Rightarrow> None | Some m \<Rightarrow> md_change24h m);
          trendScore = getTrendScore_Home price trend;
          momentumScore = getMomentumScore_Home change
      in \<lparr>item_coin = coin, item_score = momentumScore + 2 * trendScore\<rparr>)"

text \<open>
  \<^verbatim>\<open>rotationList\<close> (lines 955 to 972). While the trend data is not loaded every coin has
  the trend \<^verbatim>\<open>undefined\<close>.
\<close>

definition rotationList ::
  "Coin list \<Rightarrow> (string \<rightharpoonup> MarketData) option \<Rightarrow> (string \<rightharpoonup> TrendInfo) option \<Rightarrow>
   SectorFilter \<Rightarrow> RotationItem list" where
  "rotationList coins marketData trendData sectorFilter =
     (case marketData of
        None \<Rightarrow> []
      | Some m \<Rightarrow>
          sort_desc item_score
            (map (rotationItem m (case trendData of None \<Rightarrow> Map.empty | Some t \<Rightarrow> t))
               (visibleCoins coins sectorFilter)))"

subsection \<open>The rotation signals\<close>

text \<open>
  What can throw in lines 975 to 1055: \<^verbatim>\<open>reduce\<close> without an initial value on an empty
  array, and reading the property \<^verbatim>\<open>avg\<close> of an element that is not there. Both are
  a \<^verbatim>\<open>TypeError\<close>.
\<close>

datatype js_error = TypeError

definition bindE :: "js_error + 'a \<Rightarrow> ('a \<Rightarrow> js_error + 'b) \<Rightarrow> js_error + 'b" where
  "bindE m f = (case m of Inl e \<Rightarrow> Inl e | Inr x \<Rightarrow> f x)"

definition reduce1 :: "('a \<Rightarrow> 'a \<Rightarrow> 'a) \<Rightarrow> 'a list \<Rightarrow> js_error + 'a" where
  "reduce1 f xs = (case xs of [] \<Rightarrow> Inl TypeError | x # rest \<Rightarrow> Inr (foldl f x rest))"

definition element :: "'a list \<Rightarrow> nat \<Rightarrow> js_error + 'a" where
  "element xs i = (case js_index xs i of Undefined \<Rightarrow> Inl TypeError | Defined x \<Rightarrow> Inr x)"

text \<open>
  A message is a template string; its constructor keeps the values that fill the
  template, in the order of the template. \<^verbatim>\<open>toFixed\<close>, which prints the numbers, is
  left to the rendering.
  \<^item> \<open>SectorLeading s a s' a'\<close>: \<^verbatim>\<open>${s} sector clearly leading rotation (avg score ${a} vs ${s'} ${a'}).\<close>
  \<^item> \<open>SectorAbandoned s a\<close>: \<^verbatim>\<open>${s} sector is being abandoned (avg score ${a}).\<close>
  \<^item> \<open>Acceleration c x\<close>: \<^verbatim>\<open>${c} is in acceleration mode (rotation score ${x}).\<close>
  \<^item> \<open>Capitulation c x\<close>: \<^verbatim>\<open>${c} is in capitulation mode (rotation score ${x}).\<close>
\<close>

datatype signal =
    SectorLeading Sector real Sector real
  | SectorAbandoned Sector real
  | Acceleration string real
  | Capitulation string real

record SectorStat =
  stat_sector :: Sector
  stat_avg :: real

text \<open>
  \<^verbatim>\<open>sectorMap\<close> after the \<^verbatim>\<open>forEach\<close> of lines 997 to 999, and its entries in the order of
  its keys.
\<close>

definition sectorMap :: "RotationItem list \<Rightarrow> Sector \<Rightarrow> real list" where
  "sectorMap items =
     foldl (\<lambda>m item. m(coin_sector (item_coin item) := m (coin_sector (item_coin item)) @ [item_score item]))
       (\<lambda>s. []) items"

definition sectorEntries :: "RotationItem list \<Rightarrow> (Sector \<times> real list) list" where
  "sectorEntries items = map (\<lambda>s. (s, sectorMap items s)) [Macro, L1, Oracle]"

definition sectorStats :: "RotationItem list \<Rightarrow> SectorStat list" where
  "sectorStats items =
     sort_desc stat_avg
       (map (\<lambda>(s, arr). \<lparr>stat_sector = s, stat_avg = foldl (+) 0 arr / real (length arr)\<rparr>)
          (filter (\<lambda>(s, arr). length arr > 0) (sectorEntries items)))"

definition sectorSignals :: "SectorStat list \<Rightarrow> js_error + signal list" where
  "sectorSignals stats =
     (if length stats \<ge> 2 then
        bindE (element stats 0) (\<lambda>leader.
        bindE (element stats 1) (\<lambda>second.
        bindE (element stats (length stats - 1)) (\<lambda>laggard.
          Inr ((if stat_avg leader \<ge> 3 \<and> stat_avg leader - stat_avg second \<ge> 1.5
                then [SectorLeading (stat_sector leader) (stat_avg leader)
                        (stat_sector second) (stat_avg second)]
                else [])
               @ (if stat_avg laggard \<le> - 2
                  then [SectorAbandoned (stat_sector laggard) (stat_avg laggard)]
                  else [])))))
      else Inr [])"

definition coinSignals :: "RotationItem list \<Rightarrow> js_error + signal list" where
  "coinSignals items =
     bindE (reduce1 (\<lambda>best cur. if item_score cur > item_score best then cur else best) items)
       (\<lambda>strongest.
     bindE (reduce1 (\<lambda>worst cur. if item_score cur < item_score worst then cur else worst) items)
       (\<lambda>weakest.
       Inr ((if item_score strongest \<ge> 6
             then [Acceleration (coin_symbol (item_coin strongest)) (item_score strongest)]
             else [])
            @ (if item_score weakest \<le> - 6
               then [Capitulation (coin_symbol (item_coin weakest)) (item_score weakest)]
               else []))))"

text \<open>The signals of a list of items: the body of \<^verbatim>\<open>if (items.length > 0)\<close>, and nothing otherwise.\<close>

definition emitSignals :: "RotationItem list \<Rightarrow> js_error + signal list" where
  "emitSignals items =
     (if length items > 0 then
        bindE (sectorSignals (sectorStats items)) (\<lambda>sectorMessages.
        bindE (coinSignals items) (\<lambda>coinMessages.
          Inr (sectorMessages @ coinMessages)))
      else Inr [])"

definition signalMessages ::
  "Coin list \<Rightarrow> (string \<rightharpoonup> MarketData) option \<Rightarrow> (string \<rightharpoonup> TrendInfo) option \<Rightarrow>
   js_error + signal list" where
  "signalMessages coins marketData trendData =
     (case (marketData, trendData) of
        (Some m, Some t) \<Rightarrow> emitSignals (map (rotationItem m t) coins)
      | _ \<Rightarrow> Inr [])"

text \<open>
  What one rendering of the component computes from its state: the visible coins, the
  leaderboard and the signals.
\<close>

record HomeState =
  st_marketData :: "(string \<rightharpoonup> MarketData) option"
  st_trendData :: "(string \<rightharpoonup> TrendInfo) option"
  st_sectorFilter :: SectorFilter

record HomeView =
  view_visibleCoins :: "Coin list"
  view_rotationList :: "RotationItem list"
  view_signalMessages :: "js_error + signal list"

definition Home :: "HomeState \<Rightarrow> HomeView" where
  "Home st =
     \<lparr>view_visibleCoins = visibleCoins COINS (st_sectorFilter st),
      view_rotationList =
        rotationList COINS (st_marketData st) (st_trendData st) (st_sectorFilter st),
      view_signalMessages = signalMessages COINS (st_marketData st) (st_trendData st)\<rparr>"

subsection \<open>The sector ranking in the words of the specification\<close>

text \<open>
  The specification ranks the sectors as follows: group the coins by sector, take the
  arithmetic mean of the rotation scores of each sector, skip the sectors without a
  member, and sort the sectors by descending mean. These definitions say that, and
  nothing of the code enters them. \<open>rankedAverages\<close> is the list of the means of the
  ranked sectors: its first element is the mean of the top-ranked sector, its second
  the mean of the second-ranked one, its last that of the lowest-ranked one.
\<close>

definition sectorScores :: "RotationItem list \<Rightarrow> Sector \<Rightarrow> real list" where
  "sectorScores items s = map item_score (filter (\<lambda>item. coin_sector (item_coin item) = s) items)"

definition averageScore :: "RotationItem list \<Rightarrow> Sector \<Rightarrow> real" where
  "averageScore items s = sum_list (sectorScores items s) / real (length (sectorScores items s))"

definition populatedSectors :: "RotationItem list \<Rightarrow> Sector list" where
  "populatedSectors items =
     filter (\<lambda>s. s \<in> coin_sector ` item_coin ` set items) [Macro, L1, Oracle]"

definition rankedAverages :: "RotationItem list \<Rightarrow> real list" where
  "rankedAverages items = rev (sort (map (averageScore items) (populatedSectors items)))"

text \<open>The four kinds of message, in the order in which the specification lists them.\<close>

fun signal_rank :: "signal \<Rightarrow> nat" where
  "signal_rank (SectorLeading s a s' a') = 0"
| "signal_rank (SectorAbandoned s a) = 1"
| "signal_rank (Acceleration c x) = 2"
| "signal_rank (Capitulation c x) = 3"

section \<open>Arithmetic and comparison of numbers\<close>

lemma number_arith [simp]:
  "Num x + Num y = Num (x + y)"
  "Num x - Num y = Num (x - y)"
  "Num x * Num y = Num (x * y)"
  "y \<noteq> 0 \<Longrightarrow> Num x / Num y = Num (x / y)"
  "NaN + b = NaN" "a + NaN = NaN"
  "NaN - b = NaN" "a - NaN = NaN"
  "NaN * b = NaN" "a * NaN = NaN"
  "NaN / b = NaN" "a / NaN = NaN"
  by (simp_all add: plus_number_def minus_number_def times_number_def divide_number_def
      split: number.splits)

lemma number_compare [simp]:
  "Num x < Num y \<longleftrightarrow> x < y"
  "Num x \<le> Num y \<longleftrightarrow> x \<le> y"
  "\<not> NaN < b" "\<not> a < NaN" "\<not> NaN \<le> b" "\<not> a \<le> NaN"
  by (simp_all add: less_number_def less_eq_number_def split: number.splits)

section \<open>The signals of one card\<close>

text \<open>
  Claim C1. For numeric \<^verbatim>\<open>change7d\<close> and \<^verbatim>\<open>change24h\<close> the trend score is
  \<^verbatim>\<open>change7d / 4\<close>, the momentum score is \<^verbatim>\<open>change24h / 3\<close>, and the rotation score of
  the card is the trend score times 2 plus the momentum score. A coin with
  \<^verbatim>\<open>change24h = 8\<close> and \<^verbatim>\<open>change7d = 18\<close> (and any numeric price) has the trend score
  4.5, the momentum score 8/3, the rotation score 35/3, the green traffic light, the
  trend label Strong Uptrend and the trend phase Expansion Phase.
\<close>

theorem rotation_score_formula:
  "getTrendScore (Some (Num c7)) = Num (c7 / 4) \<and>
   getMomentumScore (Some (Num c24)) = Num (c24 / 3) \<and>
   map_option card_rotationScore
     (coinCard (Some \<lparr>entry_price = Some (Num p), entry_change24h = Some (Num c24),
                      entry_change7d = Some (Num c7)\<rparr>))
     = Some (getTrendScore (Some (Num c7)) * Num 2 + getMomentumScore (Some (Num c24))) \<and>
   coinCard (Some \<lparr>entry_price = Some (Num p), entry_change24h = Some (Num 8),
                   entry_change7d = Some (Num 18)\<rparr>)
     = Some \<lparr>card_sentiment = ''Strong Bullish'',
             card_trendLabel = ''Strong Uptrend'',
             card_trendScore = Num 4.5,
             card_momentumScore = Num (8 / 3),
             card_rotationScore = Num (35 / 3),
             card_trendPhase = ''Expansion Phase'',
             card_accelerationLabel = ''Short-term acceleration'',
             card_traffic = green_light\<rparr>"
  by (simp add: getTrendScore_def getMomentumScore_def coinCard_def isNaN_def Let_def
      getSentiment_def getTrendLabel_def getTrendPhase_def getAccelerationLabel_def
      getTrafficLight_def)

text \<open>
  Claim C3, as stated, asks for the label Unknown on a \<^verbatim>\<open>null\<close> or \<^verbatim>\<open>NaN\<close> input.
  \<^verbatim>\<open>getSentiment\<close> returns Neutral there.
\<close>

theorem getSentiment_null_counterexample:
  "getSentiment None \<noteq> ''Unknown'' \<and> getSentiment (Some NaN) \<noteq> ''Unknown''"
  by (simp add: getSentiment_def)

text \<open>
  Claim C3, amended. \<^verbatim>\<open>getSentiment\<close> returns Neutral for \<^verbatim>\<open>null\<close> and for \<^verbatim>\<open>NaN\<close>. For
  a numeric input it follows the table: above 3 Strong Bullish, above 0.5 Bullish,
  below -3 Strong Bearish, below -0.5 Bearish, otherwise Neutral. The thresholds are
  strict: 3 is Bullish.
\<close>

theorem getSentiment_table:
  "getSentiment None = ''Neutral'' \<and>
   getSentiment (Some NaN) = ''Neutral'' \<and>
   getSentiment (Some (Num x)) =
     (if x > 3 then ''Strong Bullish''
      else if x > 0.5 then ''Bullish''
      else if x < - 3 then ''Strong Bearish''
      else if x < - 0.5 then ''Bearish''
      else ''Neutral'') \<and>
   getSentiment (Some (Num 3)) = ''Bullish''"
  by (simp add: getSentiment_def)

text \<open>
  Claim C5. A rotation score of at least 6 gets the green light, a score of at most -2
  the red light, and every other score (\<^verbatim>\<open>NaN\<close> too) the yellow light. No score
  satisfies both conditions and the three labels differ, so every score has exactly
  one of the three labels. The same holds for the copy in src/unnamed/part\_000.
\<close>

theorem getTrafficLight_partition:
  "(s \<ge> Num 6 \<longrightarrow>
      getTrafficLight s = green_light \<and> getTrafficLight_part000 s = green_light) \<and>
   (s \<le> Num (- 2) \<longrightarrow>
      getTrafficLight s = red_light \<and> getTrafficLight_part000 s = red_light_part000) \<and>
   (\<not> s \<ge> Num 6 \<and> \<not> s \<le> Num (- 2) \<longrightarrow>
      getTrafficLight s = yellow_light \<and> getTrafficLight_part000 s = yellow_light_part000) \<and>
   \<not> (s \<ge> Num 6 \<and> s \<le> Num (- 2)) \<and>
   distinct (map label [green_light, yellow_light, red_light]) \<and>
   distinct (map label [green_light, yellow_light_part000, red_light_part000])"
  by (cases s)
    (simp_all add: getTrafficLight_def getTrafficLight_part000_def green_light_def
      yellow_light_def red_light_def red_light_part000_def yellow_light_part000_def)

theorem getTrafficLight_partition_witness:
  "getTrafficLight (Num 7) = green_light \<and>
   getTrafficLight (Num (- 2)) = red_light \<and>
   getTrafficLight (Num 0) = yellow_light \<and>
   getTrafficLight NaN = yellow_light"
  using getTrafficLight_partition [of "Num 7"] getTrafficLight_partition [of "Num (- 2)"]
    getTrafficLight_partition [of "Num 0"] getTrafficLight_partition [of NaN]
  by simp

section \<open>The exponential moving average\<close>

lemma ema_loop_foldl:
  "ema_loop k prices i ema =
     foldl (\<lambda>e sample. Defined (sample * k + operand e * (Num 1 - k))) ema (drop i prices)"
proof (induction k prices i ema rule: ema_loop.induct)
  case (1 k prices i ema)
  show ?case
  proof (cases "i < length prices")
    case True
    then have "drop i prices = prices ! i # drop (i + 1) prices"
      by (simp add: Cons_nth_drop_Suc)
    with True 1 show ?thesis
      by (subst ema_loop.simps) simp
  next
    case False
    then show ?thesis by (subst ema_loop.simps) simp
  qed
qed

lemma foldl_ema_step_Num:
  "foldl (\<lambda>e sample. Defined (sample * Num k + operand e * (Num 1 - Num k)))
     (Defined (Num a)) (map Num xs) =
   Defined (Num (foldl (\<lambda>ema sample. sample * k + ema * (1 - k)) a xs))"
  by (induction xs arbitrary: a) (simp_all add: operand_def)

lemma calculateEMA_fold:
  "period \<le> length prices \<Longrightarrow>
     calculateEMA prices period =
       foldl (\<lambda>e sample. Defined (sample * Num (2 / (real period + 1))
                                 + operand e * (Num 1 - Num (2 / (real period + 1)))))
         (js_index prices 0) (tl prices)"
  by (simp add: calculateEMA_def ema_loop_foldl drop_Suc add_nonneg_eq_0_iff)

lemma foldl_last_step:
  "foldl (\<lambda>ema sample. sample * 1 + ema * (1 - 1)) (e::real) xs = last (e # xs)"
  by (induction xs arbitrary: e) simp_all

lemma calculateEMA_empty_period0: "calculateEMA [] 0 = Undefined"
  by (simp add: calculateEMA_def js_index_def ema_loop.simps)

text \<open>
  Claim C4. On a series of numeric samples \<^verbatim>\<open>calculateEMA\<close> returns \<^verbatim>\<open>NaN\<close> exactly when
  the series has fewer samples than the period. When the series has at least
  \<^verbatim>\<open>period\<close> samples the result is the fold that starts from \<^verbatim>\<open>prices[0]\<close> and applies
  \<^verbatim>\<open>ema = sample * k + ema * (1 - k)\<close>, with \<^verbatim>\<open>k = 2 / (period + 1)\<close>, to every later
  sample: this holds for every array of numbers, and on numeric samples the fold is
  the fold over the reals. For the period 1 and a non-empty series the result is the
  last sample. (The empty series with the period 0 is the one input on which the seed
  \<^verbatim>\<open>prices[0]\<close> is \<^verbatim>\<open>undefined\<close>; the fold returns it: \<open>calculateEMA_empty_period0\<close>.)
\<close>

theorem calculateEMA_spec:
  "(calculateEMA (map Num xs) period = Defined NaN \<longleftrightarrow> length xs < period) \<and>
   (period \<le> length prices \<longrightarrow>
      calculateEMA prices period =
        foldl (\<lambda>ema sample. Defined (sample * (Num 2 / Num (real period + 1))
                                      + operand ema * (Num 1 - Num 2 / Num (real period + 1))))
          (js_index prices 0) (tl prices)) \<and>
   (xs \<noteq> [] \<and> period \<le> length xs \<longrightarrow>
      calculateEMA (map Num xs) period =
        Defined (Num (foldl (\<lambda>ema sample. sample * (2 / (real period + 1))
                                           + ema * (1 - 2 / (real period + 1)))
                        (hd xs) (tl xs)))) \<and>
   (xs \<noteq> [] \<longrightarrow> calculateEMA (map Num xs) 1 = Defined (Num (last xs)))"
proof -
  have nz: "real period + 1 \<noteq> 0" by (simp add: add_nonneg_eq_0_iff)
  have general: "calculateEMA prices period =
        foldl (\<lambda>ema sample. Defined (sample * (Num 2 / Num (real period + 1))
                                      + operand ema * (Num 1 - Num 2 / Num (real period + 1))))
          (js_index prices 0) (tl prices)" if "period \<le> length prices"
    using calculateEMA_fold [OF that] nz by simp
  have numeric: "calculateEMA (map Num xs) p =
        Defined (Num (foldl (\<lambda>ema sample. sample * (2 / (real p + 1)) + ema * (1 - 2 / (real p + 1)))
                        (hd xs) (tl xs)))" if "xs \<noteq> []" "p \<le> length xs" for p
  proof -
    from that obtain y ys where xs: "xs = y # ys" by (cases xs) auto
    have seed: "js_index (map Num xs) 0 = Defined (Num y)" and rest: "tl (map Num xs) = map Num ys"
      by (simp_all add: xs js_index_def)
    have "calculateEMA (map Num xs) p =
            foldl (\<lambda>e sample. Defined (sample * Num (2 / (real p + 1))
                                      + operand e * (Num 1 - Num (2 / (real p + 1)))))
              (Defined (Num y)) (map Num ys)"
      using calculateEMA_fold [of p "map Num xs"] that by (simp only: seed rest length_map)
    also have "\<dots> = Defined (Num (foldl (\<lambda>ema sample. sample * (2 / (real p + 1))
                                           + ema * (1 - 2 / (real p + 1))) y ys))"
      by (rule foldl_ema_step_Num)
    finally show ?thesis by (simp only: xs list.sel)
  qed
  have unknown: "calculateEMA (map Num xs) period = Defined NaN \<longleftrightarrow> length xs < period"
  proof (cases "length xs < period")
    case True
    then show ?thesis by (simp add: calculateEMA_def)
  next
    case False
    show ?thesis
    proof (cases xs)
      case Nil
      with False calculateEMA_fold [of period "[]"] show ?thesis by (simp add: js_index_def)
    next
      case (Cons y ys)
      with False numeric [of period] show ?thesis by simp
    qed
  qed
  have last: "calculateEMA (map Num xs) 1 = Defined (Num (last xs))" if "xs \<noteq> []"
  proof -
    from that obtain y ys where xs: "xs = y # ys" by (cases xs) auto
    have "1 \<le> length xs" using that by (cases xs) auto
    from numeric [OF that this] show ?thesis
      using foldl_last_step [of y ys] by (simp add: xs)
  qed
  from general numeric [of period] unknown last show ?thesis by blast
qed

theorem calculateEMA_spec_witness:
  "calculateEMA (map Num [10, 20, 40]) 3 = Defined (Num 27.5) \<and>
   calculateEMA (map Num [10, 20, 40]) 4 = Defined NaN \<and>
   calculateEMA (map Num [10, 20, 40]) 1 = Defined (Num 40)"
  using calculateEMA_spec [of "[10, 20, 40]" 3 "map Num [10, 20, 40]"]
    calculateEMA_spec [of "[10, 20, 40]" 4 "[]"]
  by (simp add: js_index_def operand_def)

section \<open>The trend score of the sector page\<close>

text \<open>
  Claim C10. Whatever the trend (so also for two numeric EMAs), \<^verbatim>\<open>getTrendScore\<close> of the
  sector page returns 0 when the price is \<^verbatim>\<open>null\<close>, \<^verbatim>\<open>NaN\<close> or 0. At the price 0 it does
  not return -2, also below two stacked EMAs, where the price 0.5 gets -2.
\<close>

theorem getTrendScore_Home_falsy_price:
  "getTrendScore_Home None trend = 0 \<and>
   getTrendScore_Home (Some NaN) trend = 0 \<and>
   getTrendScore_Home (Some (Num 0)) trend = 0 \<and>
   getTrendScore_Home (Some (Num 0)) trend \<noteq> - 2 \<and>
   getTrendScore_Home (Some (Num 0))
     (Some \<lparr>ema20 = Num 1, ema50 = Num 2, trend_change7d = None, trend_spark = []\<rparr>) = 0 \<and>
   getTrendScore_Home (Some (Num 0.5))
     (Some \<lparr>ema20 = Num 1, ema50 = Num 2, trend_change7d = None, trend_spark = []\<rparr>) = - 2"
  by (simp add: getTrendScore_Home_def falsy_def split: option.splits)

section \<open>The leaderboard and the rotation signals\<close>

lemma sort_desc_mset: "mset (sort_desc key xs) = mset xs"
  by (simp add: sort_desc_def)

lemma sort_desc_set: "set (sort_desc key xs) = set xs"
  by (simp add: sort_desc_def)

lemma sort_desc_length: "length (sort_desc key xs) = length xs"
  by (simp add: sort_desc_def)

lemma sort_desc_sorted: "sorted_wrt (\<lambda>a b. key a \<ge> key b) (sort_desc key xs)"
proof -
  have "sorted (map (\<lambda>x. - key x) (sort_key (\<lambda>x. - key x) xs))"
    by (rule sorted_sort_key)
  then show ?thesis
    by (simp add: sort_desc_def sorted_map)
qed

lemma sort_desc_stable:
  "filter (\<lambda>y. key y = k) (sort_desc key xs) = filter (\<lambda>y. key y = k) xs"
  using sort_key_stable [of "\<lambda>x. - key x" "- k" xs] by (simp add: sort_desc_def)

lemma sort_desc_keys: "map key (sort_desc key xs) = rev (sort (map key xs))"
proof -
  let ?ys = "sort_desc key xs"
  have "sorted_wrt (\<lambda>a b. b \<le> a) (map key ?ys)"
    using sort_desc_sorted [of key xs] by (simp add: sorted_wrt_map)
  then have "sorted (rev (map key ?ys))"
    by (simp add: sorted_wrt_rev)
  moreover have "mset (rev (map key ?ys)) = mset (map key xs)"
    by (simp add: sort_desc_mset)
  ultimately have "sort (map key xs) = rev (map key ?ys)"
    by (rule properties_for_sort [rotated])
  then show ?thesis by simp
qed

lemma sectorMap_foldl:
  "foldl (\<lambda>m item. m(coin_sector (item_coin item) := m (coin_sector (item_coin item)) @ [item_score item]))
     m items s = m s @ sectorScores items s"
  by (induction items arbitrary: m) (simp_all add: sectorScores_def)

lemma sectorMap_eq: "sectorMap items s = sectorScores items s"
  by (simp add: sectorMap_def sectorMap_foldl)

lemma foldl_plus: "foldl (+) (a::real) xs = a + sum_list xs"
  by (induction xs arbitrary: a) simp_all

lemma sectorScores_empty:
  "sectorScores items s = [] \<longleftrightarrow> s \<notin> coin_sector ` item_coin ` set items"
  by (auto simp add: sectorScores_def filter_empty_conv)

lemma sectorStats_eq:
  "sectorStats items =
     sort_desc stat_avg
       (map (\<lambda>s. \<lparr>stat_sector = s, stat_avg = averageScore items s\<rparr>) (populatedSectors items))"
  by (simp add: sectorStats_def sectorEntries_def sectorMap_eq populatedSectors_def
      averageScore_def foldl_plus sectorScores_empty)

lemma sectorStats_avgs: "map stat_avg (sectorStats items) = rankedAverages items"
  by (simp add: sectorStats_eq sort_desc_keys rankedAverages_def comp_def)

lemma sectorStats_length: "length (sectorStats items) = length (rankedAverages items)"
  using sectorStats_avgs [of items] by (metis length_map)


lemma foldl_strongest_bound:
  fixes f :: "'a \<Rightarrow> real"
  shows "foldl (\<lambda>best cur. if f cur > f best then cur else best) x xs \<in> set (x # xs) \<and>
         (\<forall>y \<in> set (x # xs). f y \<le> f (foldl (\<lambda>best cur. if f cur > f best then cur else best) x xs))"
proof (induction xs arbitrary: x)
  case Nil
  then show ?case by simp
next
  case (Cons y ys)
  show ?case
  proof (cases "f y > f x")
    case True
    with Cons.IH [of y] show ?thesis by force
  next
    case False
    with Cons.IH [of x] show ?thesis by force
  qed
qed

lemma foldl_weakest_bound:
  fixes f :: "'a \<Rightarrow> real"
  shows "foldl (\<lambda>worst cur. if f cur < f worst then cur else worst) x xs \<in> set (x # xs) \<and>
         (\<forall>y \<in> set (x # xs). f (foldl (\<lambda>worst cur. if f cur < f worst then cur else worst) x xs) \<le> f y)"
proof (induction xs arbitrary: x)
  case Nil
  then show ?case by simp
next
  case (Cons y ys)
  show ?case
  proof (cases "f y < f x")
    case True
    with Cons.IH [of y] show ?thesis by force
  next
    case False
    with Cons.IH [of x] show ?thesis by force
  qed
qed

lemma foldl_strongest:
  fixes f :: "'a \<Rightarrow> real"
  shows "f (foldl (\<lambda>best cur. if f cur > f best then cur else best) x xs) = Max (f ` set (x # xs))"
  using foldl_strongest_bound [of f x xs]
  by (intro Max_eqI [symmetric]) auto

lemma foldl_weakest:
  fixes f :: "'a \<Rightarrow> real"
  shows "f (foldl (\<lambda>worst cur. if f cur < f worst then cur else worst) x xs) = Min (f ` set (x # xs))"
  using foldl_weakest_bound [of f x xs]
  by (intro Min_eqI [symmetric]) auto

lemma populatedSectors_set:
  "set (populatedSectors items) = coin_sector ` item_coin ` set items"
proof -
  have "set [Macro, L1, Oracle] = UNIV"
    using Sector.exhaust by auto
  then show ?thesis
    unfolding populatedSectors_def set_filter by simp
qed

lemma populatedSectors_distinct: "distinct (populatedSectors items)"
  by (simp add: populatedSectors_def)

lemma rankedAverages_length:
  "length (rankedAverages items) = card (coin_sector ` item_coin ` set items)"
  using distinct_card [OF populatedSectors_distinct, of items]
  by (simp add: rankedAverages_def populatedSectors_set)

lemma sectorSignals_eq:
  "sectorSignals (sectorStats items) =
     Inr ((if 2 \<le> length (rankedAverages items) \<and> rankedAverages items ! 0 \<ge> 3
              \<and> rankedAverages items ! 0 - rankedAverages items ! 1 \<ge> 1.5
           then [SectorLeading (stat_sector (sectorStats items ! 0)) (rankedAverages items ! 0)
                   (stat_sector (sectorStats items ! 1)) (rankedAverages items ! 1)]
           else [])
          @ (if 2 \<le> length (rankedAverages items) \<and> last (rankedAverages items) \<le> - 2
             then [SectorAbandoned (stat_sector (last (sectorStats items))) (last (rankedAverages items))]
             else []))"
proof (cases "2 \<le> length (sectorStats items)")
  case False
  then show ?thesis by (simp add: sectorSignals_def sectorStats_length)
next
  case True
  then have "length (sectorStats items) \<noteq> 0" by linarith
  then have ne: "sectorStats items \<noteq> []" by (simp only: length_0_conv not_False_eq_True)
  have r0: "rankedAverages items ! 0 = stat_avg (sectorStats items ! 0)"
    and r1: "rankedAverages items ! 1 = stat_avg (sectorStats items ! 1)"
  proof -
    from True have "0 < length (sectorStats items)" and "1 < length (sectorStats items)"
      by linarith+
    then show "rankedAverages items ! 0 = stat_avg (sectorStats items ! 0)"
      and "rankedAverages items ! 1 = stat_avg (sectorStats items ! 1)"
      unfolding sectorStats_avgs [symmetric] by (simp_all only: nth_map)
  qed
  have rl: "last (rankedAverages items) = stat_avg (last (sectorStats items))"
    using ne by (simp add: sectorStats_avgs [symmetric] last_map)
  have ll: "sectorStats items ! (length (sectorStats items) - 1) = last (sectorStats items)"
    using ne by (simp add: last_conv_nth)
  have e0: "element (sectorStats items) 0 = Inr (sectorStats items ! 0)"
    and e1: "element (sectorStats items) 1 = Inr (sectorStats items ! 1)"
    and el: "element (sectorStats items) (length (sectorStats items) - 1) = Inr (last (sectorStats items))"
    using True ne by (simp_all add: element_def js_index_def last_conv_nth)
  have len: "2 \<le> length (rankedAverages items)"
    using True by (simp only: sectorStats_length)
  show ?thesis
    unfolding sectorSignals_def
    by (simp only: True len if_True e0 e1 el bindE_def sum.case r0 r1 rl simp_thms)
qed

lemma coinSignals_eq:
  "items \<noteq> [] \<Longrightarrow> \<exists>c c'.
     coinSignals items =
       Inr ((if Max (item_score ` set items) \<ge> 6
             then [Acceleration c (Max (item_score ` set items))] else [])
            @ (if Min (item_score ` set items) \<le> - 6
               then [Capitulation c' (Min (item_score ` set items))] else []))"
proof -
  assume "items \<noteq> []"
  then obtain x xs where items: "items = x # xs" by (cases items) auto
  show ?thesis
    unfolding items coinSignals_def reduce1_def bindE_def
    by (simp only: list.case sum.case foldl_strongest foldl_weakest) blast
qed

lemma emitSignals_eq:
  "\<exists>c c'. emitSignals items =
     Inr (if items = [] then []
          else
            (if 2 \<le> card (coin_sector ` item_coin ` set items) \<and> rankedAverages items ! 0 \<ge> 3
                \<and> rankedAverages items ! 0 - rankedAverages items ! 1 \<ge> 1.5
             then [SectorLeading (stat_sector (sectorStats items ! 0)) (rankedAverages items ! 0)
                     (stat_sector (sectorStats items ! 1)) (rankedAverages items ! 1)]
             else [])
            @ (if 2 \<le> card (coin_sector ` item_coin ` set items) \<and> last (rankedAverages items) \<le> - 2
               then [SectorAbandoned (stat_sector (last (sectorStats items)))
                       (last (rankedAverages items))]
               else [])
            @ (if Max (item_score ` set items) \<ge> 6
               then [Acceleration c (Max (item_score ` set items))] else [])
            @ (if Min (item_score ` set items) \<le> - 6
               then [Capitulation c' (Min (item_score ` set items))] else []))"
proof (cases "items = []")
  case True
  then show ?thesis by (simp add: emitSignals_def)
next
  case False
  from coinSignals_eq [OF False] obtain c c' where
    coin: "coinSignals items =
       Inr ((if Max (item_score ` set items) \<ge> 6
             then [Acceleration c (Max (item_score ` set items))] else [])
            @ (if Min (item_score ` set items) \<le> - 6
               then [Capitulation c' (Min (item_score ` set items))] else []))"
    by blast
  have "emitSignals items =
     Inr ((if 2 \<le> card (coin_sector ` item_coin ` set items) \<and> rankedAverages items ! 0 \<ge> 3
                \<and> rankedAverages items ! 0 - rankedAverages items ! 1 \<ge> 1.5
             then [SectorLeading (stat_sector (sectorStats items ! 0)) (rankedAverages items ! 0)
                     (stat_sector (sectorStats items ! 1)) (rankedAverages items ! 1)]
             else [])
            @ (if 2 \<le> card (coin_sector ` item_coin ` set items) \<and> last (rankedAverages items) \<le> - 2
               then [SectorAbandoned (stat_sector (last (sectorStats items)))
                       (last (rankedAverages items))]
               else [])
            @ (if Max (item_score ` set items) \<ge> 6
               then [Acceleration c (Max (item_score ` set items))] else [])
            @ (if Min (item_score ` set items) \<le> - 6
               then [Capitulation c' (Min (item_score ` set items))] else []))"
    using False
    by (simp add: emitSignals_def sectorSignals_eq coin bindE_def rankedAverages_length)
  with False show ?thesis by auto
qed

text \<open>
  Claim C6. For every list of items (a coin with its rotation score) \<^verbatim>\<open>emitSignals\<close>
  returns messages, and among them
  \<^item> a sector-leading message exactly when at least two sectors have a member, the mean
    of the top-ranked sector is at least 3 and it exceeds the mean of the second-ranked
    sector by at least 1.5;
  \<^item> a sector-abandoned message exactly when at least two sectors have a member and the
    mean of the lowest-ranked sector is at most -2;
  \<^item> an acceleration message exactly when there is a coin and the largest score is at
    least 6;
  \<^item> a capitulation message exactly when there is a coin and the smallest score is at
    most -6.
  The messages come in the order leading, abandoned, acceleration, capitulation, each
  at most once. \<^verbatim>\<open>signalMessages\<close> applies \<^verbatim>\<open>emitSignals\<close> to the items of all coins.
\<close>

theorem emitSignals_spec:
  "\<exists>msgs. emitSignals items = Inr msgs \<and>
     ((\<exists>s a s' a'. SectorLeading s a s' a' \<in> set msgs) \<longleftrightarrow>
        2 \<le> card (coin_sector ` item_coin ` set items) \<and> rankedAverages items ! 0 \<ge> 3 \<and>
        rankedAverages items ! 0 - rankedAverages items ! 1 \<ge> 1.5) \<and>
     ((\<exists>s a. SectorAbandoned s a \<in> set msgs) \<longleftrightarrow>
        2 \<le> card (coin_sector ` item_coin ` set items) \<and> last (rankedAverages items) \<le> - 2) \<and>
     ((\<exists>c x. Acceleration c x \<in> set msgs) \<longleftrightarrow>
        items \<noteq> [] \<and> Max (item_score ` set items) \<ge> 6) \<and>
     ((\<exists>c x. Capitulation c x \<in> set msgs) \<longleftrightarrow>
        items \<noteq> [] \<and> Min (item_score ` set items) \<le> - 6) \<and>
     sorted_wrt (<) (map signal_rank msgs)"
proof -
  from emitSignals_eq [of items] obtain c c' msgs where
    "emitSignals items = Inr msgs" and
    "msgs = (if items = [] then []
          else
            (if 2 \<le> card (coin_sector ` item_coin ` set items) \<and> rankedAverages items ! 0 \<ge> 3
                \<and> rankedAverages items ! 0 - rankedAverages items ! 1 \<ge> 1.5
             then [SectorLeading (stat_sector (sectorStats items ! 0)) (rankedAverages items ! 0)
                     (stat_sector (sectorStats items ! 1)) (rankedAverages items ! 1)]
             else [])
            @ (if 2 \<le> card (coin_sector ` item_coin ` set items) \<and> last (rankedAverages items) \<le> - 2
               then [SectorAbandoned (stat_sector (last (sectorStats items)))
                       (last (rankedAverages items))]
               else [])
            @ (if Max (item_score ` set items) \<ge> 6
               then [Acceleration c (Max (item_score ` set items))] else [])
            @ (if Min (item_score ` set items) \<le> - 6
               then [Capitulation c' (Min (item_score ` set items))] else []))"
    by blast
  then show ?thesis by (cases "items = []") simp_all
qed

text \<open>
  Two sectors with the means 4 and 1: the leading message, and the acceleration of the
  coin with the score 7.
\<close>

theorem emitSignals_spec_witness:
  "emitSignals
     [\<lparr>item_coin = \<lparr>coin_id = ''bitcoin'', coin_symbol = ''BTC'', coin_name = ''Bitcoin'',
                    coin_sector = Macro\<rparr>, item_score = 1\<rparr>,
      \<lparr>item_coin = \<lparr>coin_id = ''ethereum'', coin_symbol = ''ETH'', coin_name = ''Ethereum'',
                    coin_sector = L1\<rparr>, item_score = 7\<rparr>,
      \<lparr>item_coin = \<lparr>coin_id = ''solana'', coin_symbol = ''SOL'', coin_name = ''Solana'',
                    coin_sector = L1\<rparr>, item_score = 1\<rparr>]
   = Inr [SectorLeading L1 4 Macro 1, Acceleration ''ETH'' 7]"
  using emitSignals_spec
    [of "[\<lparr>item_coin = \<lparr>coin_id = ''bitcoin'', coin_symbol = ''BTC'', coin_name = ''Bitcoin'',
                    coin_sector = Macro\<rparr>, item_score = 1\<rparr>,
      \<lparr>item_coin = \<lparr>coin_id = ''ethereum'', coin_symbol = ''ETH'', coin_name = ''Ethereum'',
                    coin_sector = L1\<rparr>, item_score = 7\<rparr>,
      \<lparr>item_coin = \<lparr>coin_id = ''solana'', coin_symbol = ''SOL'', coin_name = ''Solana'',
                    coin_sector = L1\<rparr>, item_score = 1\<rparr>]"]
  by (simp add: emitSignals_def sectorSignals_def sectorStats_def
      sectorEntries_def sectorMap_def coinSignals_def reduce1_def bindE_def
      element_def js_index_def sort_desc_def Let_def)

lemma rotationItem_coin: "item_coin (rotationItem m t coin) = coin"
  by (simp add: rotationItem_def Let_def)

text \<open>
  Claim C7. \<^verbatim>\<open>signalMessages\<close> never throws: for every list of coins, loaded or missing
  market data and loaded or missing trend data it returns a list of messages (the empty
  list of coins included). When fewer than two sectors have a coin, no message is a
  sector-leading or a sector-abandoned one.
\<close>

theorem signalMessages_total:
  "\<exists>msgs. signalMessages coins marketData trendData = Inr msgs \<and>
     (card (coin_sector ` set coins) < 2 \<longrightarrow>
        \<not> (\<exists>s a s' a'. SectorLeading s a s' a' \<in> set msgs) \<and>
        \<not> (\<exists>s a. SectorAbandoned s a \<in> set msgs))"
proof (cases "marketData = None \<or> trendData = None")
  case True
  then show ?thesis by (auto simp add: signalMessages_def split: option.splits)
next
  case False
  then obtain m t where mt: "marketData = Some m" "trendData = Some t" by auto
  let ?items = "map (rotationItem m t) coins"
  have sectors: "coin_sector ` item_coin ` set ?items = coin_sector ` set coins"
    by (simp add: image_image rotationItem_coin)
  from emitSignals_eq [of ?items] obtain c c' msgs where
    "emitSignals ?items = Inr msgs" and
    "msgs = (if ?items = [] then []
          else
            (if 2 \<le> card (coin_sector ` item_coin ` set ?items) \<and> rankedAverages ?items ! 0 \<ge> 3
                \<and> rankedAverages ?items ! 0 - rankedAverages ?items ! 1 \<ge> 1.5
             then [SectorLeading (stat_sector (sectorStats ?items ! 0)) (rankedAverages ?items ! 0)
                     (stat_sector (sectorStats ?items ! 1)) (rankedAverages ?items ! 1)]
             else [])
            @ (if 2 \<le> card (coin_sector ` item_coin ` set ?items) \<and> last (rankedAverages ?items) \<le> - 2
               then [SectorAbandoned (stat_sector (last (sectorStats ?items)))
                       (last (rankedAverages ?items))]
               else [])
            @ (if Max (item_score ` set ?items) \<ge> 6
               then [Acceleration c (Max (item_score ` set ?items))] else [])
            @ (if Min (item_score ` set ?items) \<le> - 6
               then [Capitulation c' (Min (item_score ` set ?items))] else []))"
    by blast
  then show ?thesis
    unfolding sectors by (cases "coins = []") (simp_all add: signalMessages_def mt)
qed

text \<open>A single coin of the sector Macro with the score 7, and the empty list of coins.\<close>

theorem signalMessages_total_witness:
  "signalMessages
     [\<lparr>coin_id = ''bitcoin'', coin_symbol = ''BTC'', coin_name = ''Bitcoin'', coin_sector = Macro\<rparr>]
     (Some [''bitcoin'' \<mapsto> \<lparr>md_price = Some (Num 3), md_change24h = Some (Num 8)\<rparr>])
     (Some [''bitcoin'' \<mapsto> \<lparr>ema20 = Num 2, ema50 = Num 1, trend_change7d = None, trend_spark = []\<rparr>])
   = Inr [Acceleration ''BTC'' 7] \<and>
   signalMessages [] None None = Inr []"
  using signalMessages_total
    [of "[\<lparr>coin_id = ''bitcoin'', coin_symbol = ''BTC'', coin_name = ''Bitcoin'', coin_sector = Macro\<rparr>]"
      "Some [''bitcoin'' \<mapsto> \<lparr>md_price = Some (Num 3), md_change24h = Some (Num 8)\<rparr>]"
      "Some [''bitcoin'' \<mapsto> \<lparr>ema20 = Num 2, ema50 = Num 1, trend_change7d = None, trend_spark = []\<rparr>]"]
  by (simp add: signalMessages_def emitSignals_def sectorSignals_def sectorStats_def
      sectorEntries_def sectorMap_def coinSignals_def reduce1_def bindE_def rotationItem_def
      getTrendScore_Home_def getMomentumScore_Home_def falsy_def sort_desc_def Let_def)

text \<open>
  Claim C8. The leaderboard \<^verbatim>\<open>rotationList\<close> holds the items of the visible coins, each
  once, in descending order of the score; the items of one score stand in the order of
  the input, and their coins in the order of the coin list.
\<close>

theorem rotationList_sorted_stable:
  "rotationList coins None trendData sectorFilter = [] \<and>
   (let t = (case trendData of None \<Rightarrow> Map.empty | Some t \<Rightarrow> t);
        input = map (rotationItem m t) (visibleCoins coins sectorFilter);
        board = rotationList coins (Some m) trendData sectorFilter
    in sorted_wrt (\<lambda>a b. item_score a \<ge> item_score b) board \<and>
       mset board = mset input \<and>
       (\<forall>k. filter (\<lambda>item. item_score item = k) board = filter (\<lambda>item. item_score item = k) input) \<and>
       (\<forall>k. map item_coin (filter (\<lambda>item. item_score item = k) board) =
            filter (\<lambda>coin. item_score (rotationItem m t coin) = k \<and>
                            (sectorFilter = All \<or> Only (coin_sector coin) = sectorFilter)) coins))"
proof -
  define t where "t = (case trendData of None \<Rightarrow> Map.empty | Some t \<Rightarrow> t)"
  define input where "input = map (rotationItem m t) (visibleCoins coins sectorFilter)"
  have board: "rotationList coins (Some m) trendData sectorFilter = sort_desc item_score input"
    by (simp add: rotationList_def input_def t_def)
  have coins_of: "map item_coin (filter (\<lambda>item. item_score item = k) input) =
            filter (\<lambda>coin. item_score (rotationItem m t coin) = k \<and>
                            (sectorFilter = All \<or> Only (coin_sector coin) = sectorFilter)) coins" for k
    by (auto simp add: input_def visibleCoins_def filter_map comp_def rotationItem_coin
        intro!: filter_cong)
  show ?thesis
    unfolding Let_def t_def [symmetric] input_def [symmetric] board
    by (simp add: rotationList_def sort_desc_sorted sort_desc_mset sort_desc_stable coins_of)
qed

text \<open>
  The five coins when only solana has market data: solana leads with the score 3, and
  the coins of the score 0 follow in the order of the coin list, also under a filter.
\<close>

theorem rotationList_sorted_stable_witness:
  "map (\<lambda>item. (coin_symbol (item_coin item), item_score item))
     (rotationList COINS
        (Some [''solana'' \<mapsto> \<lparr>md_price = Some (Num 1), md_change24h = Some (Num 8)\<rparr>])
        None All)
   = [(''SOL'', 3), (''BTC'', 0), (''ETH'', 0), (''LINK'', 0), (''AVAX'', 0)] \<and>
   map (\<lambda>item. (coin_symbol (item_coin item), item_score item))
     (rotationList COINS
        (Some [''solana'' \<mapsto> \<lparr>md_price = Some (Num 1), md_change24h = Some (Num 8)\<rparr>])
        None (Only L1))
   = [(''SOL'', 3), (''ETH'', 0), (''AVAX'', 0)]"
  using rotationList_sorted_stable
    [of COINS None All "[''solana'' \<mapsto> \<lparr>md_price = Some (Num 1), md_change24h = Some (Num 8)\<rparr>]"]
  by (simp add: rotationList_def visibleCoins_def COINS_def rotationItem_def sort_desc_def
      getTrendScore_Home_def getMomentumScore_Home_def Let_def)

text \<open>
  Claim C9. Two renderings of the sector page whose states differ in the sector filter
  only have the same signal messages: the messages are those of all coins.
\<close>

theorem signals_ignore_filter:
  "view_signalMessages (Home (st\<lparr>st_sectorFilter := f\<rparr>)) =
   view_signalMessages (Home (st\<lparr>st_sectorFilter := f'\<rparr>)) \<and>
   view_signalMessages (Home st) = signalMessages COINS (st_marketData st) (st_trendData st)"
  by (simp add: Home_def)


section \<open>Missing provider fields\<close>

text \<open>
  Claim C2. A provider field that is absent or not a number has to be stored as
  \<^verbatim>\<open>null\<close> and never as 0, so that no classifier or score is given 0 in place of a
  missing change. \<^verbatim>\<open>load\<close> of src/unnamed/part\_000 (lines 326 to 352) does not keep
  this for the two changes. The provider writes a value it does not have as JSON
  \<^verbatim>\<open>null\<close>. The price is converted by \<^verbatim>\<open>Number(coin?.current_price ?? NaN)\<close> and a
  \<^verbatim>\<open>null\<close> price is stored as \<^verbatim>\<open>null\<close>; the changes are converted without the guard
  \<^verbatim>\<open>?? NaN\<close>, \<^verbatim>\<open>Number(null)\<close> is 0, and a \<^verbatim>\<open>null\<close> change is stored as the change 0.
  The card of such a coin is then Sideways and Range / Compression, where a missing
  change gives Unknown.
\<close>

theorem load_null_change_stored_as_zero:
  "load (\<lambda>s. NaN)
     [\<lparr>raw_id = Some ''bitcoin'', current_price = JNumber (Num 50000),
       price_change_percentage_24h_in_currency = JNull,
       price_change_percentage_24h = JNull,
       price_change_percentage_7d_in_currency = JNull,
       price_change_percentage_7d = JNull,
       sparkline_price = None\<rparr>] ''bitcoin''
   = Some \<lparr>entry_price = Some (Num 50000), entry_change24h = Some (Num 0),
           entry_change7d = Some (Num 0), entry_history7d = []\<rparr> \<and>
   load (\<lambda>s. NaN)
     [\<lparr>raw_id = Some ''bitcoin'', current_price = JNull,
       price_change_percentage_24h_in_currency = JUndefined,
       price_change_percentage_24h = JUndefined,
       price_change_percentage_7d_in_currency = JUndefined,
       price_change_percentage_7d = JUndefined,
       sparkline_price = None\<rparr>] ''bitcoin''
   = Some \<lparr>entry_price = None, entry_change24h = None, entry_change7d = None,
           entry_history7d = []\<rparr> \<and>
   getTrendLabel (Some (Num 0)) = ''Sideways'' \<and> getTrendLabel None = ''Unknown'' \<and>
   getTrendPhase (Some (Num 0)) = ''Range / Compression'' \<and> getTrendPhase None = ''Unknown''"
  by (simp add: load_def COINS_part000_def marketEntryOf_def coalesce_def toNumber_def Let_def
      getTrendLabel_def getTrendPhase_def)

end
